theory Spec2Isabelle
  imports Main
begin

section \<open>Strings, values and errors\<close>

text \<open>
  A Python \<open>str\<close> is a sequence of Unicode code points. The connectives of the rendered
  formulas are not ASCII, so a string is a list of code points rather than of bytes.
  \<open>str\<close> turns an ASCII literal into such a list.
\<close>

type_synonym pystr = "nat list"

definition str :: "string \<Rightarrow> pystr" where
  "str s = map of_char s"

text \<open>
  The errors the program raises, one constructor for each \<open>raise\<close> site:
  \<^item> \<open>NothingToEvaluate\<close> is \<open>Exception("nothing to evaluate")\<close> of \<open>Sentence.evaluate\<close>;
  \<^item> \<open>VariableNotInModel name\<close> is \<open>Exception(f"variable {name} not in model")\<close> of
    \<open>Symbol.evaluate\<close>;
  \<^item> \<open>MustBeSentence\<close> is \<open>TypeError("must be a logical sentence")\<close> of \<open>Sentence.validate\<close>;
  \<^item> \<open>UnionNeedsArgument\<close> is the \<open>TypeError\<close> of \<open>set.union\<close> called with no argument.
\<close>

datatype error =
    NothingToEvaluate
  | VariableNotInModel pystr
  | MustBeSentence
  | UnionNeedsArgument

datatype exc_class = Exception | TypeError

fun class_of :: "error \<Rightarrow> exc_class" where
  "class_of NothingToEvaluate = Exception"
| "class_of (VariableNotInModel name) = Exception"
| "class_of MustBeSentence = TypeError"
| "class_of UnionNeedsArgument = TypeError"

text \<open>\<open>isinstance(e, Exception)\<close>: \<open>TypeError\<close> derives from \<open>Exception\<close>.\<close>

fun isinstance_Exception :: "error \<Rightarrow> bool" where
  "isinstance_Exception e = (case class_of e of Exception \<Rightarrow> True | TypeError \<Rightarrow> True)"

text \<open>The values a model can hold, and \<open>bool(v)\<close>, Python's truthiness.\<close>

datatype pyval = PNone | PBool bool | PInt int | PStr pystr | PList "pyval list"

fun bool_py :: "pyval \<Rightarrow> bool" where
  "bool_py PNone = False"
| "bool_py (PBool b) = b"
| "bool_py (PInt i) = (i \<noteq> 0)"
| "bool_py (PStr s) = (s \<noteq> [])"
| "bool_py (PList vs) = (vs \<noteq> [])"

type_synonym model = "pystr \<rightharpoonup> pyval"

section \<open>Sentences\<close>

text \<open>
  The class \<open>Sentence\<close> and its four subclasses. \<open>Sentence i\<close> is a direct instance of the
  base class: it has no field, and it inherits equality and hash from \<open>object\<close>, which go by
  the identity of the object, so the constructor carries that identity.
\<close>

datatype sentence =
    Sentence nat
  | Symbol pystr
  | Not_s sentence
  | And "sentence list"
  | Implication sentence sentence

text \<open>An argument of a constructor is any Python value: a sentence or something else.\<close>

datatype arg = IsSentence sentence | NotSentence pyval

subsection \<open>\<open>Sentence.validate\<close> and the constructors\<close>

fun validate :: "arg \<Rightarrow> error + sentence" where
  "validate (IsSentence s) = Inr s"
| "validate (NotSentence v) = Inl MustBeSentence"

text \<open>The loop of \<open>And.__init__\<close>: every conjunct is validated, in order.\<close>

fun validate_all :: "arg list \<Rightarrow> error + sentence list" where
  "validate_all [] = Inr []"
| "validate_all (a # as) =
     (case validate a of
        Inl e \<Rightarrow> Inl e
      | Inr s \<Rightarrow> (case validate_all as of Inl e \<Rightarrow> Inl e | Inr ss \<Rightarrow> Inr (s # ss)))"

definition Not_init :: "arg \<Rightarrow> error + sentence" where
  "Not_init operand = (case validate operand of Inl e \<Rightarrow> Inl e | Inr s \<Rightarrow> Inr (Not_s s))"

definition And_init :: "arg list \<Rightarrow> error + sentence" where
  "And_init conjuncts =
     (case validate_all conjuncts of Inl e \<Rightarrow> Inl e | Inr ss \<Rightarrow> Inr (And ss))"

definition Implication_init :: "arg \<Rightarrow> arg \<Rightarrow> error + sentence" where
  "Implication_init antecedent consequent =
     (case validate antecedent of
        Inl e \<Rightarrow> Inl e
      | Inr a \<Rightarrow> (case validate consequent of Inl e \<Rightarrow> Inl e | Inr c \<Rightarrow> Inr (Implication a c)))"

fun conjuncts :: "sentence \<Rightarrow> sentence list" where
  "conjuncts (And cs) = cs"
| "conjuncts s = []"

subsection \<open>\<open>Sentence.parenthesize\<close>\<close>

text \<open>
  The loop of \<open>balanced\<close>, with its counter. \<open>(\<close> is code point 40 and \<open>)\<close> is 41.
\<close>

fun balanced_loop :: "int \<Rightarrow> pystr \<Rightarrow> bool" where
  "balanced_loop count [] = (count = 0)"
| "balanced_loop count (c # s) =
     (if c = 40 then balanced_loop (count + 1) s
      else if c = 41 then (if count \<le> 0 then False else balanced_loop (count - 1) s)
      else balanced_loop count s)"

definition balanced :: "pystr \<Rightarrow> bool" where
  "balanced s = balanced_loop 0 s"

text \<open>
  \<open>str.isalpha\<close>: at least one character, and every character alphabetic. Which code
  points are alphabetic is a table of the Unicode database, not of this program; it is the
  parameter \<open>alpha\<close>.
\<close>

definition isalpha :: "(nat \<Rightarrow> bool) \<Rightarrow> pystr \<Rightarrow> bool" where
  "isalpha alpha s = (s \<noteq> [] \<and> list_all alpha s)"

text \<open>
  \<open>s[0]\<close> and \<open>s[-1]\<close> are read only when \<open>len(s)\<close> is not zero; the slice \<open>s[1:-1]\<close> is
  \<open>butlast (tl s)\<close>, also for a string of one character, where both are empty.
\<close>

definition parenthesize :: "(nat \<Rightarrow> bool) \<Rightarrow> pystr \<Rightarrow> pystr" where
  "parenthesize alpha s =
     (if s = [] \<or> isalpha alpha s \<or> (hd s = 40 \<and> last s = 41 \<and> balanced (butlast (tl s)))
      then s
      else [40] @ s @ [41])"

subsection \<open>\<open>evaluate\<close>\<close>

text \<open>
  \<open>all_evaluate\<close> is \<open>all(conjunct.evaluate(model) for conjunct in self.conjuncts)\<close>: the
  generator is consumed from the left, \<open>all\<close> stops at the first false value, and an
  exception raised on the way leaves the whole call.
\<close>

fun evaluate :: "sentence \<Rightarrow> model \<Rightarrow> error + bool"
  and all_evaluate :: "sentence list \<Rightarrow> model \<Rightarrow> error + bool" where
  "evaluate (Sentence i) m = Inl NothingToEvaluate"
| "evaluate (Symbol name) m =
     (case m name of None \<Rightarrow> Inl (VariableNotInModel name) | Some v \<Rightarrow> Inr (bool_py v))"
| "evaluate (Not_s operand) m =
     (case evaluate operand m of Inl e \<Rightarrow> Inl e | Inr b \<Rightarrow> Inr (\<not> b))"
| "evaluate (And cs) m = all_evaluate cs m"
| "evaluate (Implication antecedent consequent) m =
     (case evaluate antecedent m of
        Inl e \<Rightarrow> Inl e
      | Inr a \<Rightarrow> if \<not> a then Inr True else evaluate consequent m)"
| "all_evaluate [] m = Inr True"
| "all_evaluate (c # cs) m =
     (case evaluate c m of
        Inl e \<Rightarrow> Inl e
      | Inr b \<Rightarrow> if b then all_evaluate cs m else Inr False)"

subsection \<open>\<open>formula\<close>\<close>

text \<open>\<open>sep.join(xs)\<close>.\<close>

fun join :: "pystr \<Rightarrow> pystr list \<Rightarrow> pystr" where
  "join sep [] = []"
| "join sep [x] = x"
| "join sep (x # y # ys) = x @ sep @ join sep (y # ys)"

text \<open>
  The negation sign is code point 172, the conjunction sign is 8743, a space is 32.
\<close>

fun formula :: "(nat \<Rightarrow> bool) \<Rightarrow> sentence \<Rightarrow> pystr" where
  "formula alpha (Sentence i) = []"
| "formula alpha (Symbol name) = name"
| "formula alpha (Not_s operand) = [172] @ parenthesize alpha (formula alpha operand)"
| "formula alpha (And cs) =
     (case cs of
        [c] \<Rightarrow> formula alpha c
      | _ \<Rightarrow> join [32, 8743, 32] (map (\<lambda>c. parenthesize alpha (formula alpha c)) cs))"
| "formula alpha (Implication antecedent consequent) =
     parenthesize alpha (formula alpha antecedent) @ str '' => ''
       @ parenthesize alpha (formula alpha consequent)"

subsection \<open>\<open>symbols\<close>\<close>

text \<open>
  A list comprehension over calls that may raise: the results in order, or the first
  exception.
\<close>

fun collect :: "(error + 'a) list \<Rightarrow> error + 'a list" where
  "collect [] = Inr []"
| "collect (r # rs) =
     (case r of
        Inl e \<Rightarrow> Inl e
      | Inr x \<Rightarrow> (case collect rs of Inl e \<Rightarrow> Inl e | Inr xs \<Rightarrow> Inr (x # xs)))"

text \<open>\<open>set.union(*sets)\<close>: the method needs the set it is called on.\<close>

fun set_union :: "pystr set list \<Rightarrow> error + pystr set" where
  "set_union [] = Inl UnionNeedsArgument"
| "set_union (s # ss) = Inr (fold (\<lambda>t acc. acc \<union> t) ss s)"

fun symbols :: "sentence \<Rightarrow> error + pystr set" where
  "symbols (Sentence i) = Inr {}"
| "symbols (Symbol name) = Inr {name}"
| "symbols (Not_s operand) = symbols operand"
| "symbols (And cs) =
     (case collect (map symbols cs) of Inl e \<Rightarrow> Inl e | Inr ss \<Rightarrow> set_union ss)"
| "symbols (Implication antecedent consequent) =
     (case symbols antecedent of
        Inl e \<Rightarrow> Inl e
      | Inr a \<Rightarrow> (case symbols consequent of Inl e \<Rightarrow> Inl e | Inr c \<Rightarrow> set_union [a, c]))"

subsection \<open>\<open>__eq__\<close> and \<open>__hash__\<close>\<close>

text \<open>
  \<open>sentence_eq self other\<close> is \<open>self == other\<close>; \<open>list_eq\<close> is the comparison of the two
  conjunct lists, element by element.
\<close>

fun sentence_eq :: "sentence \<Rightarrow> sentence \<Rightarrow> bool"
  and list_eq :: "sentence list \<Rightarrow> sentence list \<Rightarrow> bool" where
  "sentence_eq (Sentence i) (Sentence j) = (i = j)"
| "sentence_eq (Symbol name) (Symbol name') = (name = name')"
| "sentence_eq (Not_s operand) (Not_s operand') = sentence_eq operand operand'"
| "sentence_eq (And cs) (And cs') = list_eq cs cs'"
| "sentence_eq (Implication a c) (Implication a' c') = (sentence_eq a a' \<and> sentence_eq c c')"
| "sentence_eq self other = False"
| "list_eq [] [] = True"
| "list_eq (x # xs) (y # ys) = (sentence_eq x y \<and> list_eq xs ys)"
| "list_eq xs ys = False"

text \<open>
  The values handed to the builtin \<open>hash\<close>: strings, integers, tuples, and plain objects
  (hashed by identity). The builtin itself is the parameter \<open>h\<close>.
\<close>

datatype hashable = HStr pystr | HInt int | HTuple "hashable list" | HObject nat

fun hash_sentence :: "(hashable \<Rightarrow> int) \<Rightarrow> sentence \<Rightarrow> int" where
  "hash_sentence h (Sentence i) = h (HObject i)"
| "hash_sentence h (Symbol name) = h (HTuple [HStr (str ''symbol''), HStr name])"
| "hash_sentence h (Not_s operand) =
     h (HTuple [HStr (str ''not''), HInt (hash_sentence h operand)])"
| "hash_sentence h (And cs) =
     h (HTuple [HStr (str ''and''), HTuple (map (\<lambda>c. HInt (hash_sentence h c)) cs)])"
| "hash_sentence h (Implication a c) =
     h (HTuple [HStr (str ''implies''), HInt (hash_sentence h a), HInt (hash_sentence h c)])"

section \<open>The traffic rules\<close>

text \<open>The object of class \<open>TrafficRules\<close>: its propositions and its list of rules.\<close>

record traffic_rules =
  speed_limit :: sentence
  residential :: sentence
  highway :: sentence
  red_light :: sentence
  at_intersection :: sentence
  vehicle_moving :: sentence
  signal_change :: sentence
  signal_used :: sentence
  one_way :: sentence
  wrong_direction :: sentence
  stop_sign :: sentence
  complete_stop :: sentence
  no_parking :: sentence
  is_parked :: sentence
  no_overtaking :: sentence
  is_overtaking :: sentence
  location_a :: sentence
  location_b :: sentence
  rules :: "(sentence \<times> pystr) list"

text \<open>
  \<open>_initialize_rules\<close>. Every rule is built by the constructors from propositions, which
  are sentences, so no validation fails and the rules are written as the values built.
\<close>

definition initialize_rules :: "traffic_rules \<Rightarrow> traffic_rules" where
  "initialize_rules self = self\<lparr>rules :=
     [(And [speed_limit self, residential self], str ''Speed violation in residential area''),
      (And [speed_limit self, highway self], str ''Speed violation on highway''),
      (And [red_light self, at_intersection self, vehicle_moving self],
         str ''Red light violation''),
      (And [signal_change self, Not_s (signal_used self)], str ''Lane change violation''),
      (And [one_way self, wrong_direction self], str ''Wrong way violation''),
      (And [stop_sign self, Not_s (complete_stop self)], str ''Stop sign violation''),
      (And [no_parking self, is_parked self], str ''Parking violation''),
      (And [no_overtaking self, is_overtaking self], str ''Overtaking violation''),
      (And [location_a self, location_b self], str ''Location inconsistency'')]\<rparr>"

definition TrafficRules_init :: traffic_rules where
  "TrafficRules_init = initialize_rules
     \<lparr>speed_limit = Symbol (str ''SpeedLimit''),
       residential = Symbol (str ''Residential''),
       highway = Symbol (str ''Highway''),
       red_light = Symbol (str ''RedLight''),
       at_intersection = Symbol (str ''AtIntersection''),
       vehicle_moving = Symbol (str ''VehicleMoving''),
       signal_change = Symbol (str ''SignalChange''),
       signal_used = Symbol (str ''SignalUsed''),
       one_way = Symbol (str ''OneWay''),
       wrong_direction = Symbol (str ''WrongDirection''),
       stop_sign = Symbol (str ''StopSign''),
       complete_stop = Symbol (str ''CompleteStop''),
       no_parking = Symbol (str ''NoParking''),
       is_parked = Symbol (str ''IsParked''),
       no_overtaking = Symbol (str ''NoOvertaking''),
       is_overtaking = Symbol (str ''IsOvertaking''),
       location_a = Symbol (str ''LocationA''),
       location_b = Symbol (str ''LocationB''),
       rules = []\<rparr>"

text \<open>The dictionary \<open>key_mapping\<close> of \<open>check_violations\<close>, as its items.\<close>

definition key_mapping :: "(pystr \<times> pystr) list" where
  "key_mapping =
     [(str ''speed_limit'', str ''SpeedLimit''),
      (str ''residential'', str ''Residential''),
      (str ''highway'', str ''Highway''),
      (str ''red_light'', str ''RedLight''),
      (str ''at_intersection'', str ''AtIntersection''),
      (str ''vehicle_moving'', str ''VehicleMoving''),
      (str ''signal_change'', str ''SignalChange''),
      (str ''signal_used'', str ''SignalUsed''),
      (str ''one_way'', str ''OneWay''),
      (str ''wrong_direction'', str ''WrongDirection''),
      (str ''stop_sign'', str ''StopSign''),
      (str ''complete_stop'', str ''CompleteStop''),
      (str ''no_parking'', str ''NoParking''),
      (str ''is_parked'', str ''IsParked''),
      (str ''no_overtaking'', str ''NoOvertaking''),
      (str ''is_overtaking'', str ''IsOvertaking''),
      (str ''location_a'', str ''LocationA''),
      (str ''location_b'', str ''LocationB'')]"

text \<open>
  A scenario is a dictionary, given by its items in order. The comprehension that builds
  the model keeps the items whose key is in \<open>key_mapping\<close>, under the mapped name.
\<close>

type_synonym scenario = "(pystr \<times> pyval) list"

fun build_model :: "scenario \<Rightarrow> model \<Rightarrow> model" where
  "build_model [] m = m"
| "build_model ((key, v) # items) m =
     (case map_of key_mapping key of
        Some name \<Rightarrow> build_model items (m(name \<mapsto> v))
      | None \<Rightarrow> build_model items m)"

text \<open>
  The loop over the rules. The handler is \<open>except Exception\<close>: an error is caught when it
  is an instance of \<open>Exception\<close>, and the loop continues with the next rule.
\<close>

fun check_rules :: "(sentence \<times> pystr) list \<Rightarrow> model \<Rightarrow> pystr list \<Rightarrow> error + pystr list" where
  "check_rules [] m violations = Inr violations"
| "check_rules ((rule, violation_msg) # rest) m violations =
     (case evaluate rule m of
        Inr b \<Rightarrow> check_rules rest m (if b then violations @ [violation_msg] else violations)
      | Inl e \<Rightarrow> if isinstance_Exception e then check_rules rest m violations else Inl e)"

definition check_violations :: "traffic_rules \<Rightarrow> scenario \<Rightarrow> error + pystr list" where
  "check_violations self scenario =
     check_rules (rules self) (build_model scenario Map.empty) []"

section \<open>Notions of the specification\<close>

text \<open>
  The names of the variables that occur in a sentence, at any depth: the set that the
  specification requires of \<open>symbols\<close>.
\<close>

fun variable_names :: "sentence \<Rightarrow> pystr set" where
  "variable_names (Sentence i) = {}"
| "variable_names (Symbol name) = {name}"
| "variable_names (Not_s operand) = variable_names operand"
| "variable_names (And cs) = (\<Union>c \<in> set cs. variable_names c)"
| "variable_names (Implication antecedent consequent) =
     variable_names antecedent \<union> variable_names consequent"

text \<open>
  The invariant the specification puts on conjunctions: every \<open>And\<close> of the tree has at
  least one conjunct.
\<close>

fun nonempty_conjunctions :: "sentence \<Rightarrow> bool" where
  "nonempty_conjunctions (Sentence i) = True"
| "nonempty_conjunctions (Symbol name) = True"
| "nonempty_conjunctions (Not_s operand) = nonempty_conjunctions operand"
| "nonempty_conjunctions (And cs) = (cs \<noteq> [] \<and> list_all nonempty_conjunctions cs)"
| "nonempty_conjunctions (Implication antecedent consequent) =
     (nonempty_conjunctions antecedent \<and> nonempty_conjunctions consequent)"

text \<open>
  An expression of the specification is built from the four variants only: no direct
  instance of the base class occurs in it.
\<close>

fun expression :: "sentence \<Rightarrow> bool" where
  "expression (Sentence i) = False"
| "expression (Symbol name) = True"
| "expression (Not_s operand) = expression operand"
| "expression (And cs) = list_all expression cs"
| "expression (Implication antecedent consequent) =
     (expression antecedent \<and> expression consequent)"

text \<open>
  The ASCII letters, on which \<open>str.isalpha\<close> agrees with this predicate; it stands for
  the Unicode table where a concrete string of ASCII characters is rendered.
\<close>

definition ascii_letter :: "nat \<Rightarrow> bool" where
  "ascii_letter c = ((65 \<le> c \<and> c \<le> 90) \<or> (97 \<le> c \<and> c \<le> 122))"

section \<open>Parenthesizing twice\<close>

lemma isalpha_wrapped:
  "isalpha alpha (40 # s @ [41]) \<Longrightarrow> s \<noteq> [] \<Longrightarrow> isalpha alpha s"
  by (simp add: isalpha_def)

lemma parenthesize_cases:
  "parenthesize alpha s = s \<or>
   (parenthesize alpha s = 40 # s @ [41] \<and> s \<noteq> [] \<and> \<not> isalpha alpha s)"
  by (simp add: parenthesize_def)

text \<open>
  What \<open>parenthesize\<close> does to a string it has just wrapped: the wrapped string is kept
  when the inside is balanced, and wrapped once more otherwise.
\<close>

lemma parenthesize_wrapped:
  assumes "s \<noteq> []" and "\<not> isalpha alpha s"
  shows "parenthesize alpha (40 # s @ [41]) =
           (if balanced s then 40 # s @ [41] else 40 # 40 # s @ [41, 41])"
proof -
  have "\<not> isalpha alpha (40 # s @ [41])"
    using assms isalpha_wrapped by blast
  moreover have "butlast (tl (40 # s @ [41])) = s"
    by (simp add: butlast_append)
  moreover have "last (40 # s @ [41]) = 41" and "hd (40 # s @ [41]) = 40"
    by simp_all
  ultimately show ?thesis
    unfolding parenthesize_def[of alpha "40 # s @ [41]"] by simp
qed

text \<open>
  Claim C1, as the specification states it: \<open>parenthesize(parenthesize(s)) == parenthesize(s)\<close>
  for every non-empty \<open>s\<close>. It fails for the string \<open>(\<close>: the first call gives \<open>(()\<close>, whose
  inside \<open>(\<close> is not balanced, so the second call wraps again and gives \<open>((())\<close>.
\<close>

theorem parenthesize_twice_open_paren:
  "str ''('' \<noteq> [] \<and>
   parenthesize ascii_letter (str ''('') = str ''(()'' \<and>
   parenthesize ascii_letter (parenthesize ascii_letter (str ''('')) = str ''((())'' \<and>
   parenthesize ascii_letter (parenthesize ascii_letter (str ''(''))
     \<noteq> parenthesize ascii_letter (str ''('')"
  by (simp add: parenthesize_def str_def isalpha_def ascii_letter_def balanced_def)

text \<open>
  Claim C1, amended: for every string \<open>s\<close>, parenthesizing twice gives the same as
  parenthesizing once exactly when \<open>parenthesize\<close> leaves \<open>s\<close> as it is (\<open>s\<close> is empty,
  alphabetic, or already parenthesized around a balanced inside) or the parentheses of
  \<open>s\<close> are balanced. So it holds for every string with balanced parentheses.
\<close>

theorem parenthesize_idempotent_iff:
  "parenthesize alpha (parenthesize alpha s) = parenthesize alpha s
     \<longleftrightarrow> (parenthesize alpha s = s \<or> balanced s)"
proof (cases "parenthesize alpha s = s")
  case True
  then show ?thesis by simp
next
  case False
  then have w: "parenthesize alpha s = 40 # s @ [41]" "s \<noteq> []" "\<not> isalpha alpha s"
    using parenthesize_cases[of alpha s] by auto
  show ?thesis
    using False by (simp add: w parenthesize_wrapped[OF w(2,3)])
qed

theorem parenthesize_idempotent_iff_witness:
  "balanced (str ''a b'') \<and>
   parenthesize ascii_letter (str ''a b'') = str ''(a b)'' \<and>
   parenthesize ascii_letter (parenthesize ascii_letter (str ''a b''))
     = parenthesize ascii_letter (str ''a b'')"
  using parenthesize_idempotent_iff[of ascii_letter "str ''a b''"]
  by (simp add: parenthesize_def str_def isalpha_def ascii_letter_def balanced_def)

section \<open>Constructing a conjunction\<close>

lemma validate_all_sentences: "validate_all (map IsSentence cs) = Inr cs"
  by (induction cs) simp_all

lemma validate_all_length: "validate_all args = Inr ss \<Longrightarrow> length ss = length args"
  by (induction args arbitrary: ss) (auto split: sum.splits)

lemma validate_all_not_sentence:
  "NotSentence v \<in> set args \<Longrightarrow> validate_all args = Inl MustBeSentence"
proof (induction args)
  case Nil
  then show ?case by simp
next
  case (Cons a args)
  show ?case
  proof (cases a)
    case (IsSentence s)
    with Cons show ?thesis by (auto split: sum.splits)
  next
    case (NotSentence w)
    then show ?thesis by simp
  qed
qed

text \<open>
  Claim C2, as the specification states it: every \<open>And\<close> the constructor produces has at
  least one conjunct, and construction with no conjunct does not succeed. The constructor
  only validates the conjuncts it is given; with none it succeeds, and the conjunction it
  returns has no conjunct.
\<close>

theorem And_init_no_conjunct:
  "And_init [] = Inr (And []) \<and> \<not> 1 \<le> length (conjuncts (And []))"
  by (simp add: And_init_def)

text \<open>
  Claim C2, amended: the constructor of \<open>And\<close> takes any number of conjuncts, zero
  included. When every argument is a sentence it succeeds with the arguments as the
  conjuncts, in order; when some argument is not a sentence it fails with the type error
  of \<open>validate\<close>; and whenever it succeeds the conjunction has as many conjuncts as there
  were arguments.
\<close>

theorem And_init_any_number:
  "And_init (map IsSentence cs) = Inr (And cs) \<and>
   (NotSentence v \<in> set args \<longrightarrow> And_init args = Inl MustBeSentence) \<and>
   (And_init args = Inr s \<longrightarrow> length (conjuncts s) = length args)"
  by (auto simp: And_init_def validate_all_sentences validate_all_not_sentence
      split: sum.splits dest: validate_all_length)

theorem And_init_any_number_witness:
  "And_init (map IsSentence [Symbol (str ''A''), Symbol (str ''B'')])
     = Inr (And [Symbol (str ''A''), Symbol (str ''B'')]) \<and>
   NotSentence (PInt 5) \<in> set [IsSentence (Symbol (str ''A'')), NotSentence (PInt 5)] \<and>
   And_init [IsSentence (Symbol (str ''A'')), NotSentence (PInt 5)] = Inl MustBeSentence \<and>
   And_init [] = Inr (And []) \<and> length (conjuncts (And [])) = length ([] :: arg list)"
  using And_init_any_number[of "[Symbol (str ''A''), Symbol (str ''B'')]" "PInt 5"
      "[IsSentence (Symbol (str ''A'')), NotSentence (PInt 5)]" "And []"]
    And_init_any_number[of "[]" "PNone" "[]" "And []"]
  by (simp add: And_init_def)

text \<open>
  Claim C10: a conjunction with no conjunct can be built by the constructor of \<open>And\<close>; it
  evaluates to true in every model; and \<open>symbols\<close> fails on it, with the type error of
  \<open>set.union\<close> called without a set, so \<open>symbols\<close> is not total on the sentences that can
  be built.
\<close>

theorem empty_conjunction:
  "And_init [] = Inr (And []) \<and>
   evaluate (And []) m = Inr True \<and>
   symbols (And []) = Inl UnionNeedsArgument"
  by (simp add: And_init_def)

section \<open>Evaluation\<close>

text \<open>
  Claim C6: evaluating a variable fails, with the error that names the variable, exactly
  when the name is absent from the model, and it fails in no other case; when the model
  maps the name to a value, the result is the truthiness of that value, whatever kind of
  value it is.
\<close>

theorem Symbol_evaluate:
  "(evaluate (Symbol n) m = Inl (VariableNotInModel n) \<longleftrightarrow> m n = None) \<and>
   ((\<exists>e. evaluate (Symbol n) m = Inl e) \<longleftrightarrow> m n = None) \<and>
   (m n = Some v \<longrightarrow> evaluate (Symbol n) m = Inr (bool_py v))"
  by (auto split: option.splits)

theorem Symbol_evaluate_witness:
  "[str ''A'' \<mapsto> PInt 2] (str ''A'') = Some (PInt 2) \<and>
   evaluate (Symbol (str ''A'')) [str ''A'' \<mapsto> PInt 2] = Inr True \<and>
   [str ''A'' \<mapsto> PInt 2] (str ''B'') = None \<and>
   evaluate (Symbol (str ''B'')) [str ''A'' \<mapsto> PInt 2] = Inl (VariableNotInModel (str ''B''))"
  using Symbol_evaluate[of "str ''A''" "[str ''A'' \<mapsto> PInt 2]" "PInt 2"]
    Symbol_evaluate[of "str ''B''" "[str ''A'' \<mapsto> PInt 2]" "PInt 2"]
  by (simp add: str_def)

text \<open>
  Claim C5: an implication evaluates to false exactly when its antecedent evaluates to
  true and its consequent to false. The antecedent is evaluated first: its error is the
  error of the implication, and when it evaluates to false the implication is true
  without the consequent being evaluated, so whatever the consequent would raise is not
  raised.
\<close>

theorem Implication_evaluate:
  "(evaluate (Implication a b) m = Inr False
      \<longleftrightarrow> evaluate a m = Inr True \<and> evaluate b m = Inr False) \<and>
   (evaluate a m = Inr False \<longrightarrow> evaluate (Implication a b) m = Inr True) \<and>
   (evaluate a m = Inl e \<longrightarrow> evaluate (Implication a b) m = Inl e)"
  by (auto split: sum.splits)

theorem Implication_evaluate_witness:
  "evaluate (Symbol (str ''A'')) [str ''A'' \<mapsto> PBool False] = Inr False \<and>
   evaluate (Symbol (str ''B'')) [str ''A'' \<mapsto> PBool False]
     = Inl (VariableNotInModel (str ''B'')) \<and>
   evaluate (Implication (Symbol (str ''A'')) (Symbol (str ''B''))) [str ''A'' \<mapsto> PBool False]
     = Inr True \<and>
   evaluate (Implication (Symbol (str ''B'')) (Symbol (str ''A''))) [str ''A'' \<mapsto> PBool False]
     = Inl (VariableNotInModel (str ''B''))"
  using Implication_evaluate[of "Symbol (str ''A'')" "Symbol (str ''B'')"
      "[str ''A'' \<mapsto> PBool False]" "NothingToEvaluate"]
    Implication_evaluate[of "Symbol (str ''B'')" "Symbol (str ''A'')"
      "[str ''A'' \<mapsto> PBool False]" "VariableNotInModel (str ''B'')"]
  by (simp add: str_def)

text \<open>
  An expression whose variables are all bound evaluates to a truth value, and so does a
  list of such expressions under \<open>all\<close>.
\<close>

lemma evaluate_bound:
  "expression e \<Longrightarrow> variable_names e \<subseteq> dom m \<Longrightarrow> \<exists>b. evaluate e m = Inr b"
  "list_all expression cs \<Longrightarrow> (\<Union>c \<in> set cs. variable_names c) \<subseteq> dom m
     \<Longrightarrow> \<exists>b. all_evaluate cs m = Inr b"
proof (induction e m and cs m rule: evaluate_all_evaluate.induct)
  case (2 name m)
  then show ?case by (auto split: option.splits)
next
  case (5 antecedent consequent m)
  then show ?case by (auto split: sum.splits)
next
  case (7 c cs m)
  then show ?case by (auto split: sum.splits)
qed auto

lemma all_evaluate_append:
  "all_evaluate pre m = Inr True \<Longrightarrow> all_evaluate (pre @ rest) m = all_evaluate rest m"
  by (induction pre) (auto split: sum.splits if_splits)

text \<open>
  Claim C4: for expressions \<open>a\<close> and \<open>b\<close> and a model that binds all their variables, both
  evaluate to truth values and the conjunction of the two evaluates to their logical
  conjunction. In any model the conjunction of two sentences is Python's \<open>and\<close> of the two
  evaluations, the second made only when the first is true. The conjuncts are evaluated
  from the left and evaluation stops at the first false one: when the conjuncts before
  \<open>c\<close> are all true and \<open>c\<close> is false, the result is false whatever follows \<open>c\<close>, also
  conjuncts with variables the model does not bind.
\<close>

theorem And_evaluate:
  "(expression a \<and> expression b \<and> variable_names a \<union> variable_names b \<subseteq> dom m \<longrightarrow>
      (\<exists>x y. evaluate a m = Inr x \<and> evaluate b m = Inr y \<and>
             evaluate (And [a, b]) m = Inr (x \<and> y))) \<and>
   evaluate (And [a, b]) m =
     (case evaluate a m of
        Inl e \<Rightarrow> Inl e
      | Inr x \<Rightarrow> if x then evaluate b m else Inr False) \<and>
   (all_evaluate pre m = Inr True \<and> evaluate c m = Inr False \<longrightarrow>
      evaluate (And (pre @ c # post)) m = Inr False)"
proof (intro conjI impI)
  assume h: "expression a \<and> expression b \<and> variable_names a \<union> variable_names b \<subseteq> dom m"
  then obtain x y where "evaluate a m = Inr x" "evaluate b m = Inr y"
    using evaluate_bound(1)[of a m] evaluate_bound(1)[of b m] by auto
  then show "\<exists>x y. evaluate a m = Inr x \<and> evaluate b m = Inr y \<and>
             evaluate (And [a, b]) m = Inr (x \<and> y)"
    by (cases x) auto
next
  show "evaluate (And [a, b]) m =
     (case evaluate a m of
        Inl e \<Rightarrow> Inl e
      | Inr x \<Rightarrow> if x then evaluate b m else Inr False)"
    by (auto split: sum.splits)
next
  assume "all_evaluate pre m = Inr True \<and> evaluate c m = Inr False"
  then show "evaluate (And (pre @ c # post)) m = Inr False"
    by (simp add: all_evaluate_append)
qed

theorem And_evaluate_witness:
  "expression (Symbol (str ''A'')) \<and> expression (Symbol (str ''B'')) \<and>
   variable_names (Symbol (str ''A'')) \<union> variable_names (Symbol (str ''B''))
     \<subseteq> dom [str ''A'' \<mapsto> PBool True, str ''B'' \<mapsto> PBool False] \<and>
   evaluate (And [Symbol (str ''A''), Symbol (str ''B'')])
     [str ''A'' \<mapsto> PBool True, str ''B'' \<mapsto> PBool False] = Inr False \<and>
   all_evaluate [Symbol (str ''A'')] [str ''A'' \<mapsto> PBool True, str ''B'' \<mapsto> PBool False]
     = Inr True \<and>
   evaluate (Symbol (str ''B'')) [str ''A'' \<mapsto> PBool True, str ''B'' \<mapsto> PBool False]
     = Inr False \<and>
   evaluate (Symbol (str ''C'')) [str ''A'' \<mapsto> PBool True, str ''B'' \<mapsto> PBool False]
     = Inl (VariableNotInModel (str ''C'')) \<and>
   evaluate (And ([Symbol (str ''A'')] @ Symbol (str ''B'') # [Symbol (str ''C'')]))
     [str ''A'' \<mapsto> PBool True, str ''B'' \<mapsto> PBool False] = Inr False"
  using And_evaluate[of "Symbol (str ''A'')" "Symbol (str ''B'')"
      "[str ''A'' \<mapsto> PBool True, str ''B'' \<mapsto> PBool False]"
      "[Symbol (str ''A'')]" "Symbol (str ''B'')" "[Symbol (str ''C'')]"]
  by (simp add: str_def)

section \<open>Equality and hash\<close>

lemma sentence_eq_iff:
  "sentence_eq a b \<longleftrightarrow> a = b"
  "list_eq xs ys \<longleftrightarrow> xs = ys"
  by (induction a b and xs ys rule: sentence_eq_list_eq.induct) auto

lemma list_eq_nth:
  "list_eq xs ys \<longleftrightarrow>
     length xs = length ys \<and> (\<forall>i<length xs. sentence_eq (xs ! i) (ys ! i))"
  by (simp add: sentence_eq_iff list_eq_iff_nth_eq)

text \<open>
  Claim C7: \<open>e1 == e2\<close> holds exactly when the two sentences are the same variant with
  equal children all the way down, which is the equality of the two trees; for variables
  that is the equality of the names, and for conjunctions the two sequences of conjuncts
  have the same length and are equal position by position. Sentences that are equal have
  the same hash, whatever the builtin \<open>hash\<close> computes.
\<close>

theorem sentence_eq_structural:
  "(sentence_eq e1 e2 \<longleftrightarrow> e1 = e2) \<and>
   (sentence_eq (Symbol n1) (Symbol n2) \<longleftrightarrow> n1 = n2) \<and>
   (sentence_eq (And xs) (And ys) \<longleftrightarrow>
      length xs = length ys \<and> (\<forall>i<length xs. sentence_eq (xs ! i) (ys ! i))) \<and>
   (sentence_eq e1 e2 \<longrightarrow> hash_sentence h e1 = hash_sentence h e2)"
  using list_eq_nth[of xs ys] by (simp add: sentence_eq_iff)

theorem sentence_eq_structural_witness:
  "sentence_eq (And [Symbol (str ''A''), Not_s (Symbol (str ''B''))])
     (And [Symbol (str ''A''), Not_s (Symbol (str ''B''))]) \<and>
   hash_sentence (\<lambda>x. int (size x)) (And [Symbol (str ''A''), Not_s (Symbol (str ''B''))])
     = hash_sentence (\<lambda>x. int (size x)) (And [Symbol (str ''A''), Not_s (Symbol (str ''B''))]) \<and>
   length [Symbol (str ''A''), Symbol (str ''B'')] = length [Symbol (str ''B''), Symbol (str ''A'')] \<and>
   \<not> sentence_eq ([Symbol (str ''A''), Symbol (str ''B'')] ! 0)
        ([Symbol (str ''B''), Symbol (str ''A'')] ! 0) \<and>
   \<not> sentence_eq (And [Symbol (str ''A''), Symbol (str ''B'')])
        (And [Symbol (str ''B''), Symbol (str ''A'')])"
  using sentence_eq_structural[of "And [Symbol (str ''A''), Not_s (Symbol (str ''B''))]"
      "And [Symbol (str ''A''), Not_s (Symbol (str ''B''))]" "str ''A''" "str ''B''"
      "[Symbol (str ''A''), Symbol (str ''B'')]" "[Symbol (str ''B''), Symbol (str ''A'')]"
      "\<lambda>x. int (size x)"]
  by (simp add: str_def)

section \<open>The symbols of a sentence\<close>

lemma set_union_Cons: "set_union (s # ss) = Inr (s \<union> \<Union> (set ss))"
proof -
  have "fold (\<lambda>t acc. acc \<union> t) ss s = s \<union> \<Union> (set ss)" for s
    by (induction ss arbitrary: s) auto
  then show ?thesis by simp
qed

lemma collect_symbols:
  assumes "\<And>c. c \<in> set cs \<Longrightarrow>
     symbols c =
       (if nonempty_conjunctions c then Inr (variable_names c) else Inl UnionNeedsArgument)"
  shows "collect (map symbols cs) =
     (if list_all nonempty_conjunctions cs then Inr (map variable_names cs)
      else Inl UnionNeedsArgument)"
  using assms by (induction cs) (auto split: sum.splits)

text \<open>
  What \<open>symbols\<close> returns on any sentence: the names of its variables when no conjunction
  in it is empty, and the type error of \<open>set.union\<close> otherwise.
\<close>

lemma symbols_exact:
  "symbols e =
     (if nonempty_conjunctions e then Inr (variable_names e) else Inl UnionNeedsArgument)"
proof (induction e rule: symbols.induct)
  case (4 cs)
  have c: "collect (map symbols cs) =
     (if list_all nonempty_conjunctions cs then Inr (map variable_names cs)
      else Inl UnionNeedsArgument)"
    using 4 by (rule collect_symbols)
  show ?case
  proof (cases cs)
    case Nil
    then show ?thesis by simp
  next
    case (Cons x xs)
    show ?thesis
    proof (cases "list_all nonempty_conjunctions cs")
      case True
      then have "symbols (And cs) = set_union (map variable_names cs)"
        using c by simp
      also have "\<dots> = Inr (variable_names x \<union> \<Union> (set (map variable_names xs)))"
        unfolding Cons list.map by (rule set_union_Cons)
      finally show ?thesis
        using True Cons by simp
    next
      case False
      then show ?thesis
        using c by simp
    qed
  qed
next
  case (5 antecedent consequent)
  then show ?case by (auto simp: set_union_Cons)
qed simp_all

text \<open>
  Claim C8: for every well-formed expression, one whose conjunctions all have at least one
  conjunct, \<open>symbols\<close> returns the set of the names of the variables that occur in the
  tree, at any depth: the singleton of the name for a variable, the set of the operand for
  a negation, the union over the conjuncts for a conjunction, the union of the two sides
  for an implication. The result is a set, so no name is there twice.
\<close>

theorem symbols_variable_names:
  "nonempty_conjunctions e \<Longrightarrow> symbols e = Inr (variable_names e)"
  by (simp add: symbols_exact)

theorem symbols_variable_names_witness:
  "nonempty_conjunctions
     (Implication (And [Symbol (str ''A''), Not_s (Symbol (str ''B''))])
        (And [Symbol (str ''A'')])) \<and>
   symbols
     (Implication (And [Symbol (str ''A''), Not_s (Symbol (str ''B''))])
        (And [Symbol (str ''A'')])) = Inr {str ''A'', str ''B''}"
  using symbols_variable_names[of
      "Implication (And [Symbol (str ''A''), Not_s (Symbol (str ''B''))])
        (And [Symbol (str ''A'')])"]
  by (simp add: str_def insert_commute)

section \<open>Rendering\<close>

text \<open>
  Claim C9: the formula of a variable is its name; the formula of a negation is the
  negation sign followed by the parenthesized formula of the operand; the formula of a
  conjunction with exactly one conjunct is the formula of that conjunct, not
  parenthesized, and with two or more conjuncts it is their parenthesized formulas joined
  by the conjunction sign between two spaces; the formula of an implication is the
  parenthesized formula of the antecedent, the arrow between two spaces, and the
  parenthesized formula of the consequent.
\<close>

theorem formula_rendering:
  "formula alpha (Symbol n) = n \<and>
   formula alpha (Not_s x) = [172] @ parenthesize alpha (formula alpha x) \<and>
   formula alpha (And [c]) = formula alpha c \<and>
   (2 \<le> length cs \<longrightarrow>
      formula alpha (And cs) =
        join [32, 8743, 32] (map (\<lambda>c. parenthesize alpha (formula alpha c)) cs)) \<and>
   formula alpha (Implication a b) =
     parenthesize alpha (formula alpha a) @ str '' => '' @ parenthesize alpha (formula alpha b)"
  by (auto split: list.splits)

theorem formula_rendering_witness:
  "2 \<le> length
     [Symbol (str ''A''), Not_s (Implication (Symbol (str ''B'')) (Symbol (str ''C'')))] \<and>
   formula ascii_letter
     (And [Symbol (str ''A''), Not_s (Implication (Symbol (str ''B'')) (Symbol (str ''C'')))])
     = str ''A'' @ [32, 8743, 32] @ [40, 172] @ str ''(B => C)'' @ [41] \<and>
   formula ascii_letter (Not_s (Symbol (str ''X''))) = [172] @ str ''X'' \<and>
   formula ascii_letter (And [Symbol (str ''A''), Symbol (str ''B'')])
     = str ''A'' @ [32, 8743, 32] @ str ''B''"
  using formula_rendering[of ascii_letter "str ''A''" "Symbol (str ''A'')" "Symbol (str ''A'')"
      "[Symbol (str ''A''), Not_s (Implication (Symbol (str ''B'')) (Symbol (str ''C'')))]"
      "Symbol (str ''B'')" "Symbol (str ''C'')"]
  by (simp add: parenthesize_def str_def isalpha_def ascii_letter_def balanced_def)

section \<open>Checking a scenario\<close>

lemma check_rules_filter:
  "check_rules rs m acc =
     Inr (acc @ map snd (filter (\<lambda>r. evaluate (fst r) m = Inr True) rs))"
proof (induction rs arbitrary: acc)
  case Nil
  then show ?case by simp
next
  case (Cons r rs)
  obtain rule msg where r: "r = (rule, msg)" by (cases r)
  show ?case
  proof (cases "evaluate rule m")
    case (Inl e)
    then show ?thesis by (cases "class_of e") (simp_all add: r Cons.IH)
  next
    case (Inr b)
    then show ?thesis by (simp add: r Cons.IH)
  qed
qed

text \<open>
  Claim C3, as the specification states it: \<open>check_violations\<close> skips a rule exactly when
  its evaluation raises the unbound-variable error, and no other error is swallowed. The
  handler is \<open>except Exception\<close>, so every error is swallowed: a rule that is a direct
  instance of \<open>Sentence\<close> raises "nothing to evaluate", which is not the unbound-variable
  error, and \<open>check_violations\<close> skips it and goes on to the next rule.
\<close>

theorem check_violations_swallows_other_error:
  "evaluate (Sentence 0)
     (build_model [(str ''speed_limit'', PBool True), (str ''residential'', PBool True)] Map.empty)
     = Inl NothingToEvaluate \<and>
   check_violations
     (TrafficRules_init
        \<lparr>rules := [(Sentence 0, str ''Nothing''),
                   (And [Symbol (str ''SpeedLimit''), Symbol (str ''Residential'')],
                    str ''Speed violation in residential area'')]\<rparr>)
     [(str ''speed_limit'', PBool True), (str ''residential'', PBool True)]
     = Inr [str ''Speed violation in residential area'']"
  by (simp add: check_violations_def key_mapping_def str_def)

text \<open>
  Claim C3, amended: for every scenario, \<open>check_violations\<close> returns, in the order of the
  catalogue, the labels of the rules whose expression evaluates to true in the model of
  the scenario, and it never raises: a rule whose evaluation raises any error, the
  unbound-variable error or another one, is skipped and the remaining rules are checked.
\<close>

theorem check_violations_skips_any_error:
  "check_violations self scenario =
     Inr (map snd (filter (\<lambda>r. evaluate (fst r) (build_model scenario Map.empty) = Inr True)
                     (rules self))) \<and>
   (evaluate rule m = Inl e \<longrightarrow>
      check_rules ((rule, msg) # rest) m acc = check_rules rest m acc)"
proof
  show "check_violations self scenario =
     Inr (map snd (filter (\<lambda>r. evaluate (fst r) (build_model scenario Map.empty) = Inr True)
                     (rules self)))"
    by (simp add: check_violations_def check_rules_filter)
next
  show "evaluate rule m = Inl e \<longrightarrow>
      check_rules ((rule, msg) # rest) m acc = check_rules rest m acc"
    by (cases "class_of e") simp_all
qed

theorem check_violations_skips_any_error_witness:
  "evaluate (Symbol (str ''Highway'')) [str ''SpeedLimit'' \<mapsto> PBool True]
     = Inl (VariableNotInModel (str ''Highway'')) \<and>
   check_rules [(Symbol (str ''Highway''), str ''H''), (Symbol (str ''SpeedLimit''), str ''S'')]
     [str ''SpeedLimit'' \<mapsto> PBool True] []
     = check_rules [(Symbol (str ''SpeedLimit''), str ''S'')]
         [str ''SpeedLimit'' \<mapsto> PBool True] [] \<and>
   check_violations TrafficRules_init
     [(str ''speed_limit'', PBool True), (str ''residential'', PBool True),
      (str ''wheels'', PInt 4), (str ''signal_change'', PBool True),
      (str ''signal_used'', PBool False), (str ''stop_sign'', PBool True)]
     = Inr [str ''Speed violation in residential area'', str ''Lane change violation'']"
  using check_violations_skips_any_error[of TrafficRules_init
      "[(str ''speed_limit'', PBool True), (str ''residential'', PBool True),
        (str ''wheels'', PInt 4), (str ''signal_change'', PBool True),
        (str ''signal_used'', PBool False), (str ''stop_sign'', PBool True)]"
      "Symbol (str ''Highway'')" "[str ''SpeedLimit'' \<mapsto> PBool True]"
      "VariableNotInModel (str ''Highway'')" "str ''H''"
      "[(Symbol (str ''SpeedLimit''), str ''S'')]" "[]"]
  by (simp add: check_violations_def TrafficRules_init_def initialize_rules_def
      key_mapping_def str_def)

end
